theory Spec2Isabelle
  imports Main "HOL-Library.Word" "HOL-Library.Sublist"
begin

section \<open>Values, requests and the network\<close>

text \<open>
  The bot of \<^verbatim>\<open>crypto_bot.py\<close> handles Python values decoded from JSON. A JSON
  object is an association list in insertion order (the decoder keeps one entry per
  key), a float is its 64 IEEE-754 bits, and Python's \<^verbatim>\<open>None\<close> is \<open>JNull\<close>.
  Strings are byte strings; the asset ids and currency codes of the API are ASCII.
\<close>

datatype json =
    JNull
  | JBool bool
  | JInt int
  | JFloat "64 word"
  | JStr string
  | JList "json list"
  | JDict "(string \<times> json) list"

text \<open>Python's truth value of an object, as tested by \<^verbatim>\<open>if details:\<close>.\<close>

fun truthy :: "json \<Rightarrow> bool" where
  "truthy JNull = False"
| "truthy (JBool b) = b"
| "truthy (JInt n) = (n \<noteq> 0)"
| "truthy (JFloat w) = (push_bit 1 w \<noteq> 0)"
| "truthy (JStr s) = (s \<noteq> [])"
| "truthy (JList xs) = (xs \<noteq> [])"
| "truthy (JDict kvs) = (kvs \<noteq> [])"

text \<open>The exceptions that can leave a handler.\<close>

datatype error = TypeError | AttributeError | IndexError

text \<open>
  A GET request is its URL and its query parameters (\<^verbatim>\<open>params=None\<close> is \<open>None\<close>).
\<close>

record request =
  url :: string
  params :: "(string \<times> json) list option"

text \<open>
  What one attempt of \<^verbatim>\<open>make_api_request\<close> meets inside its \<^verbatim>\<open>try\<close>:
  the body decodes (\<open>Decoded\<close>), \<^verbatim>\<open>raise_for_status\<close> raises
  \<^verbatim>\<open>requests.exceptions.HTTPError\<close> (\<open>HTTP_error\<close>), or anything else is raised:
  a connection failure in \<^verbatim>\<open>requests.get\<close>, a body that is not JSON in
  \<^verbatim>\<open>response.json()\<close> (\<open>Other_error\<close>).
\<close>

datatype attempt = Decoded json | HTTP_error | Other_error

text \<open>
  The network is a parameter: \<open>net r i\<close> is what attempt number \<open>i\<close> (from 0) of the
  request \<open>r\<close> meets.
\<close>

type_synonym network = "request \<Rightarrow> nat \<Rightarrow> attempt"

definition COINGECKO_API_URL :: string where
  "COINGECKO_API_URL = ''https://api.coingecko.com/api/v3''"

definition SUPPORTED_CURRENCIES :: "string list" where
  "SUPPORTED_CURRENCIES =
     [''usd'', ''eur'', ''gbp'', ''jpy'', ''aud'', ''cad'', ''chf'', ''cny'', ''inr'']"

section \<open>The fetch helper\<close>

text \<open>
  \<^verbatim>\<open>for attempt in range(5)\<close>: \<open>retry_loop w i n\<close> runs the attempts \<open>i\<close>,
  \<open>i + 1\<close>, ... with \<open>n\<close> iterations left. It returns the value of
  \<^verbatim>\<open>make_api_request\<close> and the number of requests sent. A decoded body returns at
  once, an HTTP error sleeps and goes on to the next iteration, any other exception
  breaks out of the loop, and after the loop the function returns \<^verbatim>\<open>None\<close>.
\<close>

fun retry_loop :: "(nat \<Rightarrow> attempt) \<Rightarrow> nat \<Rightarrow> nat \<Rightarrow> json \<times> nat" where
  "retry_loop w i 0 = (JNull, i)"
| "retry_loop w i (Suc n) =
     (case w i of
        Decoded v \<Rightarrow> (v, Suc i)
      | HTTP_error \<Rightarrow> retry_loop w (Suc i) n
      | Other_error \<Rightarrow> (JNull, Suc i))"

text \<open>
  The effect of one call of the helper: the request it sent and how many times.
\<close>

record fetch =
  sent :: request
  tries :: nat

definition make_api_request ::
  "network \<Rightarrow> string \<Rightarrow> (string \<times> json) list option \<Rightarrow> json \<times> fetch" where
  "make_api_request net u ps =
     (let r = \<lparr>url = u, params = ps\<rparr>;
          (v, n) = retry_loop (net r) 0 5
      in (v, \<lparr>sent = r, tries = n\<rparr>))"

definition get_top_cryptos :: "network \<Rightarrow> int \<Rightarrow> json \<times> fetch" where
  "get_top_cryptos net limit =
     make_api_request net (COINGECKO_API_URL @ ''/coins/markets'')
       (Some [(''vs_currency'', JStr ''usd''),
              (''order'', JStr ''market_cap_desc''),
              (''per_page'', JInt limit),
              (''page'', JInt 1),
              (''sparkline'', JBool False)])"

definition get_trending_cryptos :: "network \<Rightarrow> json \<times> fetch" where
  "get_trending_cryptos net =
     make_api_request net (COINGECKO_API_URL @ ''/search/trending'') None"

definition get_crypto_details :: "network \<Rightarrow> string \<Rightarrow> string \<Rightarrow> json \<times> fetch" where
  "get_crypto_details net crypto_id currency =
     make_api_request net (COINGECKO_API_URL @ ''/simple/price'')
       (Some [(''ids'', JStr crypto_id),
              (''vs_currencies'', JStr currency),
              (''include_24hr_change'', JStr ''true''),
              (''include_market_cap'', JStr ''true'')])"

section \<open>Strings\<close>

text \<open>
  \<^verbatim>\<open>str.upper\<close>, \<^verbatim>\<open>str.capitalize\<close>, \<^verbatim>\<open>str.startswith\<close> and
  \<^verbatim>\<open>str.split\<close> on ASCII strings; bytes outside a-z and A-Z are left as they are.
\<close>

definition upper_char :: "char \<Rightarrow> char" where
  "upper_char c =
     (let n = (of_char c :: nat) in if 97 \<le> n \<and> n \<le> 122 then char_of (n - 32) else c)"

definition lower_char :: "char \<Rightarrow> char" where
  "lower_char c =
     (let n = (of_char c :: nat) in if 65 \<le> n \<and> n \<le> 90 then char_of (n + 32) else c)"

definition upper :: "string \<Rightarrow> string" where
  "upper s = map upper_char s"

definition capitalize :: "string \<Rightarrow> string" where
  "capitalize s = (case s of [] \<Rightarrow> [] | c # cs \<Rightarrow> upper_char c # map lower_char cs)"

definition startswith :: "string \<Rightarrow> string \<Rightarrow> bool" where
  "startswith s p = (take (length p) s = p)"

text \<open>\<^verbatim>\<open>s.split(sep)\<close> for a separator of one character.\<close>

fun split :: "char \<Rightarrow> string \<Rightarrow> string list" where
  "split sep [] = [[]]"
| "split sep (c # cs) =
     (if c = sep then [] # split sep cs
      else (case split sep cs of [] \<Rightarrow> [[c]] | w # ws \<Rightarrow> (c # w) # ws))"

text \<open>\<^verbatim>\<open>xs[1]\<close>, which raises on a list of fewer than two elements.\<close>

fun index1 :: "'a list \<Rightarrow> error + 'a" where
  "index1 (x # y # ys) = Inr y"
| "index1 xs = Inl IndexError"

text \<open>
  A replacement field \<^verbatim>\<open>{v}\<close> of an f-string: a string is inserted as it is. How
  Python prints any other value (a number, \<^verbatim>\<open>None\<close>, a nested object) is the
  parameter \<open>fmt\<close>.
\<close>

definition format :: "(json \<Rightarrow> string) \<Rightarrow> json \<Rightarrow> string" where
  "format fmt v = (case v of JStr s \<Rightarrow> s | _ \<Rightarrow> fmt v)"

text \<open>\<^verbatim>\<open>d.get(key, default)\<close> on a dict.\<close>

definition dict_get :: "(string \<times> json) list \<Rightarrow> string \<Rightarrow> json \<Rightarrow> json" where
  "dict_get kvs k d = (case map_of kvs k of None \<Rightarrow> d | Some v \<Rightarrow> v)"

definition nl :: string where
  "nl = [CHR 0x0A]"

text \<open>The two emoji of the messages, as UTF-8.\<close>

definition money_bag :: string where
  "money_bag = [CHR 0xF0, CHR 0x9F, CHR 0x92, CHR 0xB0]"

definition no_entry :: string where
  "no_entry = [CHR 0xF0, CHR 0x9F, CHR 0x9A, CHR 0xAB]"

section \<open>Conversation states, updates and replies\<close>

datatype state = MAIN_MENU | CHOOSING_CRYPTO | CHOOSING_CURRENCY | TYPING_SEARCH | COMPARE_SELECTION

datatype button = InlineKeyboardButton (label: string) (callback_data: string)

type_synonym keyboard = "button list list"

text \<open>
  What a handler sends to the transport: the answer to the callback query, an edit of
  the message in place, or a new message; the last two with an optional keyboard.
\<close>

datatype reply =
    Answer
  | Edit_message_text string "keyboard option"
  | Reply_text string "keyboard option"

text \<open>
  An update carries a callback query with its payload (\<^verbatim>\<open>query.data\<close>) or a text
  message, for which \<^verbatim>\<open>update.callback_query\<close> is \<^verbatim>\<open>None\<close>. \<^verbatim>\<open>main\<close> registers
  \<^verbatim>\<open>button_click\<close> for both.
\<close>

datatype update = Callback_query string | Message string

text \<open>
  The result of running a handler: the value it returns (\<open>Inl\<close> an exception that
  leaves it; \<open>Inr None\<close> a bare \<^verbatim>\<open>return\<close>), \<^verbatim>\<open>context.user_data\<close> afterwards,
  the replies in the order they were sent and the fetches made.
\<close>

record run =
  returned :: "error + state option"
  user_data :: "string \<rightharpoonup> string"
  replies :: "reply list"
  fetches :: "fetch list"

section \<open>Menus\<close>

definition main_menu_keyboard :: keyboard where
  "main_menu_keyboard =
     [[InlineKeyboardButton ''Top 100 Cryptocurrencies'' ''top100''],
      [InlineKeyboardButton ''Trending Cryptocurrencies'' ''trending''],
      [InlineKeyboardButton ''Search Cryptocurrency'' ''search''],
      [InlineKeyboardButton ''Quit'' ''quit'']]"

definition show_main_menu :: "update \<Rightarrow> bool \<Rightarrow> reply" where
  "show_main_menu update is_comparing =
     (let text = (if \<not> is_comparing
                  then ''Welcome to the Crypto Price Bot! What would you like to do?''
                  else ''Select a cryptocurrency to compare.'')
      in case update of
           Callback_query d \<Rightarrow> Edit_message_text text (Some main_menu_keyboard)
         | Message m \<Rightarrow> Reply_text text (Some main_menu_keyboard))"

definition back_row :: "button list" where
  "back_row = [InlineKeyboardButton ''Back to Main Menu'' ''main_menu'']"

subsection \<open>The asset list\<close>

text \<open>
  The body of the inner loop of \<^verbatim>\<open>show_crypto_list\<close>: the button of one asset.
  \<^verbatim>\<open>crypto.get\<close> needs a dict and \<^verbatim>\<open>symbol.upper()\<close> a string.
\<close>

fun crypto_button :: "(json \<Rightarrow> string) \<Rightarrow> json \<Rightarrow> error + button" where
  "crypto_button fmt (JDict kvs) =
     (let name = dict_get kvs ''name'' (JStr ''Unknown'');
          symbol = dict_get kvs ''symbol'' (JStr ''Unknown'');
          crypto_id = dict_get kvs ''id'' (JStr ''unknown'')
      in case symbol of
           JStr s \<Rightarrow>
             Inr (InlineKeyboardButton
                    (format fmt name @ '' ('' @ upper s @ '')'')
                    (''crypto:'' @ format fmt crypto_id))
         | _ \<Rightarrow> Inl AttributeError)"
| "crypto_button fmt crypto = Inl AttributeError"

text \<open>The inner loop over one slice; the first exception ends it.\<close>

fun build_row :: "(json \<Rightarrow> string) \<Rightarrow> json list \<Rightarrow> error + button list" where
  "build_row fmt [] = Inr []"
| "build_row fmt (crypto # rest) =
     (case crypto_button fmt crypto of
        Inl e \<Rightarrow> Inl e
      | Inr b \<Rightarrow> (case build_row fmt rest of Inl e \<Rightarrow> Inl e | Inr bs \<Rightarrow> Inr (b # bs)))"

text \<open>
  The outer loop \<^verbatim>\<open>for i in range(0, len(cryptos), 2)\<close> from index \<open>i\<close> on, each
  row built from the slice \<^verbatim>\<open>cryptos[i:i+2]\<close>.
\<close>

function build_keyboard :: "(json \<Rightarrow> string) \<Rightarrow> json list \<Rightarrow> nat \<Rightarrow> error + keyboard" where
  "build_keyboard fmt cryptos i =
     (if i < length cryptos then
        (case build_row fmt (take 2 (drop i cryptos)) of
           Inl e \<Rightarrow> Inl e
         | Inr row \<Rightarrow>
             (case build_keyboard fmt cryptos (i + 2) of
                Inl e \<Rightarrow> Inl e
              | Inr rows \<Rightarrow> Inr (row # rows)))
      else Inr [])"
  by pat_completeness auto
termination
  by (relation "measure (\<lambda>(fmt, cryptos, i). length cryptos - i)") auto

text \<open>
  \<^verbatim>\<open>show_crypto_list\<close> edits the message once, after the keyboard is built. On a list
  the loops run. On another value: \<^verbatim>\<open>len\<close> raises TypeError on \<^verbatim>\<open>None\<close>, a bool
  or a number; a dict that is not empty cannot be sliced (TypeError; KeyError from
  Python 3.12 on, where a slice is hashable); the characters of a string that is not
  empty have no \<^verbatim>\<open>get\<close>. An empty dict or string gives no row.
\<close>

definition show_crypto_list :: "(json \<Rightarrow> string) \<Rightarrow> json \<Rightarrow> string \<Rightarrow> error + reply" where
  "show_crypto_list fmt cryptos title =
     (case cryptos of
        JList xs \<Rightarrow>
          (case build_keyboard fmt xs 0 of
             Inl e \<Rightarrow> Inl e
           | Inr rows \<Rightarrow> Inr (Edit_message_text title (Some (rows @ [back_row]))))
      | JDict kvs \<Rightarrow>
          (if kvs = [] then Inr (Edit_message_text title (Some [back_row]))
           else Inl TypeError)
      | JStr s \<Rightarrow>
          (if s = [] then Inr (Edit_message_text title (Some [back_row]))
           else Inl AttributeError)
      | _ \<Rightarrow> Inl TypeError)"

subsection \<open>The quote\<close>

definition quote_message :: "(json \<Rightarrow> string) \<Rightarrow> (string \<times> json) list \<Rightarrow> string \<Rightarrow> string \<Rightarrow> string" where
  "quote_message fmt details crypto_id currency =
     (let price = dict_get details currency (JStr ''N/A'');
          change_24h = dict_get details (currency @ ''_24h_change'') (JStr ''N/A'');
          market_cap = dict_get details (currency @ ''_market_cap'') (JStr ''N/A'');
          trading_volume = dict_get details (currency @ ''_24h_vol'') (JStr ''N/A'')
      in money_bag @ '' '' @ capitalize crypto_id @ '' ('' @ upper currency @ '')'' @ nl
         @ ''Price: '' @ format fmt price @ '' '' @ upper currency @ nl
         @ ''24h Change: '' @ format fmt change_24h @ ''%'' @ nl
         @ ''Market Cap: '' @ format fmt market_cap @ '' '' @ upper currency @ nl
         @ ''24h Trading Volume: '' @ format fmt trading_volume @ '' '' @ upper currency
         @ nl @ nl)"

definition details_keyboard :: keyboard where
  "details_keyboard =
     [[InlineKeyboardButton ''Compare with another Cryptocurrency'' ''compare_selection''],
      [InlineKeyboardButton ''Main Menu'' ''main_menu''],
      [InlineKeyboardButton ''Quit'' ''quit'']]"

definition unavailable_notice :: string where
  "unavailable_notice = no_entry @ '' Unable to retrieve cryptocurrency details.''"

text \<open>
  \<^verbatim>\<open>show_crypto_details\<close> fetches the quote and renders it: the exception that leaves
  it, if any, then its replies and its fetch. A decoded value that is true and not a
  dict has no \<^verbatim>\<open>get\<close>.
\<close>

definition show_crypto_details ::
  "network \<Rightarrow> (json \<Rightarrow> string) \<Rightarrow> string \<Rightarrow> string \<Rightarrow> error option \<times> reply list \<times> fetch" where
  "show_crypto_details net fmt crypto_id currency =
     (let (details, f) = get_crypto_details net crypto_id currency
      in if truthy details then
           (case details of
              JDict kvs \<Rightarrow>
                (None,
                 [Edit_message_text (quote_message fmt kvs crypto_id currency) None,
                  Reply_text ''Select an option:'' (Some details_keyboard)],
                 f)
            | _ \<Rightarrow> (Some AttributeError, [], f))
         else (None, [Edit_message_text unavailable_notice None], f))"

definition show_currency_options :: reply where
  "show_currency_options =
     Edit_message_text ''Choose a currency:''
       (Some (map (\<lambda>currency. [InlineKeyboardButton (upper currency) (''currency:'' @ currency)])
                SUPPORTED_CURRENCIES
              @ [back_row]))"

section \<open>The handlers\<close>

definition start :: "update \<Rightarrow> (string \<rightharpoonup> string) \<Rightarrow> run" where
  "start update ud =
     \<lparr>returned = Inr (Some MAIN_MENU), user_data = ud,
      replies = [show_main_menu update False], fetches = []\<rparr>"

text \<open>
  \<^verbatim>\<open>button_click\<close>, branch by branch in the order of the source. On a text message
  \<^verbatim>\<open>query\<close> is \<^verbatim>\<open>None\<close> and \<^verbatim>\<open>query.answer()\<close> raises. An exception of
  \<^verbatim>\<open>show_crypto_list\<close> or \<^verbatim>\<open>show_crypto_details\<close> leaves the handler, after the
  replies already sent.
\<close>

definition button_click ::
  "network \<Rightarrow> (json \<Rightarrow> string) \<Rightarrow> update \<Rightarrow> (string \<rightharpoonup> string) \<Rightarrow> run" where
  "button_click net fmt update ud =
     (case update of
        Message m \<Rightarrow>
          \<lparr>returned = Inl AttributeError, user_data = ud, replies = [], fetches = []\<rparr>
      | Callback_query d \<Rightarrow>
          if d = ''main_menu'' then
            \<lparr>returned = Inr (Some MAIN_MENU), user_data = ud,
             replies = [Answer, show_main_menu update False], fetches = []\<rparr>
          else if d = ''top100'' then
            (let wait = Edit_message_text ''Fetching top cryptocurrencies, please wait...'' None;
                 (cryptos, f) = get_top_cryptos net 100
             in case show_crypto_list fmt cryptos ''Top 100 Cryptocurrencies:'' of
                  Inl e \<Rightarrow>
                    \<lparr>returned = Inl e, user_data = ud,
                     replies = [Answer, wait], fetches = [f]\<rparr>
                | Inr shown \<Rightarrow>
                    \<lparr>returned = Inr (Some CHOOSING_CRYPTO), user_data = ud,
                     replies = [Answer, wait, shown], fetches = [f]\<rparr>)
          else if d = ''quit'' then
            \<lparr>returned = Inr (Some MAIN_MENU), user_data = ud,
             replies = [Answer,
                        Edit_message_text
                          ''You can return to the main menu anytime by using /start.'' None],
             fetches = []\<rparr>
          else if d = ''trending'' then
            (let wait = Edit_message_text
                          ''Fetching trending cryptocurrencies, please wait...'' None;
                 (cryptos, f) = get_trending_cryptos net
             in case show_crypto_list fmt cryptos ''Trending Cryptocurrencies:'' of
                  Inl e \<Rightarrow>
                    \<lparr>returned = Inl e, user_data = ud,
                     replies = [Answer, wait], fetches = [f]\<rparr>
                | Inr shown \<Rightarrow>
                    \<lparr>returned = Inr (Some CHOOSING_CRYPTO), user_data = ud,
                     replies = [Answer, wait, shown], fetches = [f]\<rparr>)
          else if d = ''search'' then
            \<lparr>returned = Inr (Some TYPING_SEARCH), user_data = ud,
             replies = [Answer,
                        Edit_message_text
                          ''Please enter the name of the cryptocurrency you want to check:''
                          None],
             fetches = []\<rparr>
          else if startswith d ''crypto:'' then
            (case index1 (split (CHR '':'') d) of
               Inl e \<Rightarrow>
                 \<lparr>returned = Inl e, user_data = ud, replies = [Answer], fetches = []\<rparr>
             | Inr crypto_id \<Rightarrow>
                 \<lparr>returned = Inr (Some CHOOSING_CURRENCY),
                  user_data = ud(''crypto'' \<mapsto> crypto_id),
                  replies = [Answer, show_currency_options], fetches = []\<rparr>)
          else if startswith d ''currency:'' then
            (case index1 (split (CHR '':'') d) of
               Inl e \<Rightarrow>
                 \<lparr>returned = Inl e, user_data = ud, replies = [Answer], fetches = []\<rparr>
             | Inr currency \<Rightarrow>
                 (let crypto_id = (case ud ''crypto'' of None \<Rightarrow> ''bitcoin'' | Some c \<Rightarrow> c);
                      (raised, shown, f) = show_crypto_details net fmt crypto_id currency
                  in \<lparr>returned = (case raised of
                                     Some e \<Rightarrow> Inl e
                                   | None \<Rightarrow> Inr (Some COMPARE_SELECTION)),
                      user_data = ud, replies = Answer # shown, fetches = [f]\<rparr>))
          else if d = ''compare_selection'' then
            (case ud ''crypto'' of
               None \<Rightarrow>
                 \<lparr>returned = Inr None, user_data = ud,
                  replies = [Answer,
                             Edit_message_text
                               ''Please select a cryptocurrency before comparing.'' None],
                  fetches = []\<rparr>
             | Some crypto_id \<Rightarrow>
                 if crypto_id = [] then
                   \<lparr>returned = Inr None, user_data = ud,
                    replies = [Answer,
                               Edit_message_text
                                 ''Please select a cryptocurrency before comparing.'' None],
                    fetches = []\<rparr>
                 else
                   (let wait = Edit_message_text
                                 ''Fetching top 100 currencies for comparison, please wait...''
                                 None;
                        (cryptos, f) = get_top_cryptos net 100
                    in case show_crypto_list fmt cryptos
                              (''Compare '' @ crypto_id @ '' with another currency:'') of
                         Inl e \<Rightarrow>
                           \<lparr>returned = Inl e, user_data = ud,
                            replies = [Answer, wait], fetches = [f]\<rparr>
                       | Inr shown \<Rightarrow>
                           \<lparr>returned = Inr (Some CHOOSING_CURRENCY), user_data = ud,
                            replies = [Answer, wait, shown], fetches = [f]\<rparr>))
          else
            \<lparr>returned = Inr (Some MAIN_MENU), user_data = ud,
             replies = [Answer,
                        Edit_message_text ''Invalid selection. Returning to main menu.'' None,
                        show_main_menu update False],
             fetches = []\<rparr>)"

section \<open>Shapes of the decoded values\<close>

text \<open>
  An asset record, as the asset list reads it: a dict whose \<^verbatim>\<open>symbol\<close>, when it has
  one, is a string.
\<close>

definition asset_record :: "json \<Rightarrow> bool" where
  "asset_record crypto =
     (case crypto of
        JDict kvs \<Rightarrow>
          (case map_of kvs ''symbol'' of None \<Rightarrow> True | Some (JStr s) \<Rightarrow> True | Some _ \<Rightarrow> False)
      | _ \<Rightarrow> False)"

text \<open>
  What the spec asks a field of the quote to show: the value as the f-string prints it,
  or the marker N/A when the record has no such field.
\<close>

definition rendered_field :: "(json \<Rightarrow> string) \<Rightarrow> (string \<times> json) list \<Rightarrow> string \<Rightarrow> string" where
  "rendered_field fmt details key =
     (case map_of details key of None \<Rightarrow> ''N/A'' | Some v \<Rightarrow> format fmt v)"

section \<open>The fetch helper retries\<close>

lemma retry_loop_http:
  "(\<forall>j<k. w (i + j) = HTTP_error) \<Longrightarrow> k \<le> n \<Longrightarrow>
   retry_loop w i n = retry_loop w (i + k) (n - k)"
proof (induction k arbitrary: i n)
  case 0
  then show ?case by simp
next
  case (Suc k)
  then obtain m where n: "n = Suc m" by (cases n) auto
  from Suc.prems(1) have w0: "w i = HTTP_error" by (metis add.right_neutral zero_less_Suc)
  have rest: "\<forall>j<k. w (Suc i + j) = HTTP_error"
    using Suc.prems(1) by (metis Suc_less_eq add_Suc_shift)
  have "retry_loop w (Suc i) m = retry_loop w (Suc i + k) (m - k)"
    using Suc.IH [OF rest] Suc.prems(2) n by simp
  then show ?case using w0 n by simp
qed

lemma retry_loop_result:
  "fst (retry_loop w i n) = JNull \<or>
   (\<exists>k. i \<le> k \<and> k < i + n \<and> w k = Decoded (fst (retry_loop w i n)))"
proof (induction n arbitrary: i)
  case 0
  then show ?case by simp
next
  case (Suc n)
  show ?case
  proof (cases "w i")
    case (Decoded v)
    then show ?thesis by auto
  next
    case HTTP_error
    from Suc.IH [of "Suc i"] HTTP_error show ?thesis
      by (auto intro: Suc_leD)
  next
    case Other_error
    then show ?thesis by simp
  qed
qed

lemma retry_loop_stops:
  "k < 5 \<Longrightarrow> \<forall>i<k. w i = HTTP_error \<Longrightarrow> w k \<noteq> HTTP_error \<Longrightarrow>
   retry_loop w 0 5 = (case w k of Decoded v \<Rightarrow> (v, Suc k) | _ \<Rightarrow> (JNull, Suc k))"
proof -
  assume a: "k < 5" "\<forall>i<k. w i = HTTP_error" "w k \<noteq> HTTP_error"
  then obtain m where m: "5 - k = Suc m" by (cases "5 - k") auto
  from a have "retry_loop w 0 5 = retry_loop w k (5 - k)"
    using retry_loop_http [of k w 0 5] by simp
  with a m show ?thesis by (simp split: attempt.splits)
qed

lemma retry_loop_exhausted:
  "\<forall>i<5. w i = HTTP_error \<Longrightarrow> retry_loop w 0 5 = (JNull, 5)"
  using retry_loop_http [of 5 w 0 5] by simp

lemma make_api_request_loop:
  "make_api_request net (url r) (params r) =
     (fst (retry_loop (net r) 0 5), \<lparr>sent = r, tries = snd (retry_loop (net r) 0 5)\<rparr>)"
  by (cases r) (simp add: make_api_request_def Let_def split_beta)

lemma make_api_request_first:
  "net \<lparr>url = u, params = ps\<rparr> 0 = Decoded v \<Longrightarrow>
   make_api_request net u ps = (v, \<lparr>sent = \<lparr>url = u, params = ps\<rparr>, tries = 1\<rparr>)"
  using retry_loop_stops [of 0 "net \<lparr>url = u, params = ps\<rparr>"]
  by (simp add: make_api_request_def)

lemma make_api_request_other:
  "net \<lparr>url = u, params = ps\<rparr> 0 = Other_error \<Longrightarrow>
   make_api_request net u ps = (JNull, \<lparr>sent = \<lparr>url = u, params = ps\<rparr>, tries = 1\<rparr>)"
  using retry_loop_stops [of 0 "net \<lparr>url = u, params = ps\<rparr>"]
  by (simp add: make_api_request_def)

text \<open>
  Claim C1. Four attempts that meet an HTTP error and a fifth that decodes return the
  decoded value of the fifth; five HTTP errors return \<^verbatim>\<open>None\<close> after five
  requests; the first attempt that meets any other exception returns \<^verbatim>\<open>None\<close> with
  no request after it; the first attempt that decodes returns its value with no request
  after it. The value returned is always \<^verbatim>\<open>None\<close> or the decoded value of one of
  the five attempts: no exception leaves the helper.
\<close>

theorem make_api_request_retry:
  "((\<forall>i<4. net1 r1 i = HTTP_error) \<and> net1 r1 4 = Decoded v1
       \<longrightarrow> make_api_request net1 (url r1) (params r1) = (v1, \<lparr>sent = r1, tries = 5\<rparr>))
   \<and> ((\<forall>i<5. net2 r2 i = HTTP_error)
       \<longrightarrow> make_api_request net2 (url r2) (params r2) = (JNull, \<lparr>sent = r2, tries = 5\<rparr>))
   \<and> (k3 < 5 \<and> (\<forall>i<k3. net3 r3 i = HTTP_error) \<and> net3 r3 k3 = Other_error
       \<longrightarrow> make_api_request net3 (url r3) (params r3) = (JNull, \<lparr>sent = r3, tries = Suc k3\<rparr>))
   \<and> (k4 < 5 \<and> (\<forall>i<k4. net4 r4 i = HTTP_error) \<and> net4 r4 k4 = Decoded v4
       \<longrightarrow> make_api_request net4 (url r4) (params r4) = (v4, \<lparr>sent = r4, tries = Suc k4\<rparr>))
   \<and> (fst (make_api_request net5 (url r5) (params r5)) = JNull
       \<or> (\<exists>k<5. net5 r5 k = Decoded (fst (make_api_request net5 (url r5) (params r5)))))"
proof (intro conjI impI)
  assume "(\<forall>i<4. net1 r1 i = HTTP_error) \<and> net1 r1 4 = Decoded v1"
  then show "make_api_request net1 (url r1) (params r1) = (v1, \<lparr>sent = r1, tries = 5\<rparr>)"
    using retry_loop_stops [of 4 "net1 r1"] by (simp add: make_api_request_loop)
next
  assume "\<forall>i<5. net2 r2 i = HTTP_error"
  then show "make_api_request net2 (url r2) (params r2) = (JNull, \<lparr>sent = r2, tries = 5\<rparr>)"
    by (simp add: make_api_request_loop retry_loop_exhausted)
next
  assume "k3 < 5 \<and> (\<forall>i<k3. net3 r3 i = HTTP_error) \<and> net3 r3 k3 = Other_error"
  then show "make_api_request net3 (url r3) (params r3) = (JNull, \<lparr>sent = r3, tries = Suc k3\<rparr>)"
    using retry_loop_stops [of k3 "net3 r3"] by (simp add: make_api_request_loop)
next
  assume "k4 < 5 \<and> (\<forall>i<k4. net4 r4 i = HTTP_error) \<and> net4 r4 k4 = Decoded v4"
  then show "make_api_request net4 (url r4) (params r4) = (v4, \<lparr>sent = r4, tries = Suc k4\<rparr>)"
    using retry_loop_stops [of k4 "net4 r4"] by (simp add: make_api_request_loop)
next
  show "fst (make_api_request net5 (url r5) (params r5)) = JNull
        \<or> (\<exists>k<5. net5 r5 k = Decoded (fst (make_api_request net5 (url r5) (params r5))))"
    using retry_loop_result [of "net5 r5" 0 5] by (auto simp: make_api_request_loop)
qed

theorem make_api_request_retry_witness:
  "make_api_request (\<lambda>r i. if i < 4 then HTTP_error else Decoded (JInt 7)) ''u'' None
     = (JInt 7, \<lparr>sent = \<lparr>url = ''u'', params = None\<rparr>, tries = 5\<rparr>)
   \<and> make_api_request (\<lambda>r i. HTTP_error) ''u'' None
     = (JNull, \<lparr>sent = \<lparr>url = ''u'', params = None\<rparr>, tries = 5\<rparr>)
   \<and> make_api_request (\<lambda>r i. if i < 2 then HTTP_error else Other_error) ''u'' None
     = (JNull, \<lparr>sent = \<lparr>url = ''u'', params = None\<rparr>, tries = 3\<rparr>)
   \<and> make_api_request (\<lambda>r i. if i < 1 then HTTP_error else Decoded (JStr ''ok'')) ''u'' None
     = (JStr ''ok'', \<lparr>sent = \<lparr>url = ''u'', params = None\<rparr>, tries = 2\<rparr>)"
  using make_api_request_retry [of
      "\<lambda>r i. if i < 4 then HTTP_error else Decoded (JInt 7)" "\<lparr>url = ''u'', params = None\<rparr>" "JInt 7"
      "\<lambda>r i. HTTP_error" "\<lparr>url = ''u'', params = None\<rparr>"
      2 "\<lambda>r i. if i < 2 then HTTP_error else Other_error" "\<lparr>url = ''u'', params = None\<rparr>"
      1 "\<lambda>r i. if i < 1 then HTTP_error else Decoded (JStr ''ok'')" "\<lparr>url = ''u'', params = None\<rparr>"
      "JStr ''ok''"]
  by simp

section \<open>The asset list\<close>

lemma crypto_button_record:
  "asset_record crypto \<Longrightarrow> \<exists>b. crypto_button fmt crypto = Inr b \<and> take 7 (callback_data b) = ''crypto:''"
  by (cases crypto) (auto simp: asset_record_def dict_get_def Let_def split: option.splits json.splits)

lemma build_row_records:
  "list_all asset_record xs \<Longrightarrow>
   \<exists>bs. build_row fmt xs = Inr bs \<and> map Inr bs = map (crypto_button fmt) xs"
proof (induction xs)
  case Nil
  then show ?case by simp
next
  case (Cons x xs)
  then obtain bs where bs: "build_row fmt xs = Inr bs" "map Inr bs = map (crypto_button fmt) xs"
    by auto
  from Cons.prems obtain b where b: "crypto_button fmt x = Inr b"
    using crypto_button_record [of x fmt] by auto
  from b bs show ?case by simp
qed

lemma build_keyboard_records:
  "list_all asset_record cryptos \<Longrightarrow>
   \<exists>rows. build_keyboard fmt cryptos i = Inr rows
     \<and> length rows = (length cryptos - i + 1) div 2
     \<and> (\<forall>row \<in> set rows. 1 \<le> length row \<and> length row \<le> 2)
     \<and> map Inr (concat rows) = map (crypto_button fmt) (drop i cryptos)"
proof (induction fmt cryptos i rule: build_keyboard.induct)
  case (1 fmt cryptos i)
  show ?case
  proof (cases "i < length cryptos")
    case False
    then show ?thesis by (simp add: build_keyboard.simps [of fmt cryptos i])
  next
    case True
    have "list_all asset_record (take 2 (drop i cryptos))"
      using "1.prems" by (auto simp: list_all_iff dest: in_set_takeD in_set_dropD)
    then obtain row where row: "build_row fmt (take 2 (drop i cryptos)) = Inr row"
        "map Inr row = map (crypto_button fmt) (take 2 (drop i cryptos))"
      using build_row_records by blast
    from row(2) have len: "length row = length (take 2 (drop i cryptos))"
      by (metis length_map)
    from "1.IH" [OF True row(1)] "1.prems" obtain rows where
      rows: "build_keyboard fmt cryptos (i + 2) = Inr rows"
        "length rows = (length cryptos - (i + 2) + 1) div 2"
        "\<forall>row \<in> set rows. 1 \<le> length row \<and> length row \<le> 2"
        "map Inr (concat rows) = map (crypto_button fmt) (drop (i + 2) cryptos)"
      by blast
    have eq: "build_keyboard fmt cryptos i = Inr (row # rows)"
      using True row(1) rows(1) by (simp add: build_keyboard.simps [of fmt cryptos i])
    have l: "length (row # rows) = (length cryptos - i + 1) div 2"
      using rows(2) True by simp arith
    have r: "\<forall>r \<in> set (row # rows). 1 \<le> length r \<and> length r \<le> 2"
      using rows(3) len True by auto
    have "drop i cryptos = take 2 (drop i cryptos) @ drop (i + 2) cryptos"
      by (metis add.commute append_take_drop_id drop_drop)
    then have "map (crypto_button fmt) (drop i cryptos) =
        map (crypto_button fmt) (take 2 (drop i cryptos)) @ map (crypto_button fmt) (drop (i + 2) cryptos)"
      by (metis map_append)
    then have c: "map Inr (concat (row # rows)) = map (crypto_button fmt) (drop i cryptos)"
      using row(2) rows(4) by simp
    from eq l r c show ?thesis by blast
  qed
qed

lemma build_keyboard_payloads:
  "build_keyboard fmt cryptos 0 = Inr rows \<Longrightarrow> map Inr (concat rows) = map (crypto_button fmt) cryptos \<Longrightarrow>
   list_all asset_record cryptos \<Longrightarrow> b \<in> set (concat rows) \<Longrightarrow> take 7 (callback_data b) = ''crypto:''"
proof -
  assume m: "map Inr (concat rows) = map (crypto_button fmt) cryptos"
    and a: "list_all asset_record cryptos" and b: "b \<in> set (concat rows)"
  from b have "Inr b \<in> set (map Inr (concat rows) :: (error + button) list)" by simp
  with m obtain c where c: "c \<in> set cryptos" "crypto_button fmt c = Inr b" by auto
  with a show ?thesis using crypto_button_record [of c fmt] by (auto simp: list_all_iff)
qed

text \<open>
  Claim C5. For a list of \<open>N\<close> asset records, \<^verbatim>\<open>show_crypto_list\<close> raises nothing
  and edits the message with a keyboard of \<open>(N + 1) div 2\<close> rows of one or two asset
  buttons, the buttons of the assets in the order of the list, followed by the row
  "Back to Main Menu"; no asset button carries the payload of the back button, so that
  row occurs once.
\<close>

theorem show_crypto_list_rows:
  assumes "list_all asset_record cryptos"
  shows "\<exists>rows. show_crypto_list fmt (JList cryptos) title
                  = Inr (Edit_message_text title (Some (rows @ [back_row])))
          \<and> length rows = (length cryptos + 1) div 2
          \<and> (\<forall>row \<in> set rows. 1 \<le> length row \<and> length row \<le> 2)
          \<and> map Inr (concat rows) = map (crypto_button fmt) cryptos
          \<and> (\<forall>row \<in> set rows. \<forall>b \<in> set row. callback_data b \<noteq> ''main_menu'')"
proof -
  from build_keyboard_records [OF assms, of fmt 0] obtain rows where
    rows: "build_keyboard fmt cryptos 0 = Inr rows"
      "length rows = (length cryptos + 1) div 2"
      "\<forall>row \<in> set rows. 1 \<le> length row \<and> length row \<le> 2"
      "map Inr (concat rows) = map (crypto_button fmt) cryptos"
    by auto
  have "\<forall>row \<in> set rows. \<forall>b \<in> set row. callback_data b \<noteq> ''main_menu''"
  proof (intro ballI)
    fix row b assume "row \<in> set rows" "b \<in> set row"
    then have "b \<in> set (concat rows)" by auto
    from build_keyboard_payloads [OF rows(1) rows(4) assms this]
    show "callback_data b \<noteq> ''main_menu''" by auto
  qed
  with rows show ?thesis by (simp add: show_crypto_list_def)
qed

theorem show_crypto_list_rows_witness:
  "list_all asset_record
     [JDict [(''id'', JStr ''bitcoin''), (''symbol'', JStr ''btc''), (''name'', JStr ''Bitcoin'')],
      JDict [(''id'', JStr ''ethereum''), (''symbol'', JStr ''eth''), (''name'', JStr ''Ethereum'')],
      JDict [(''id'', JStr ''tether'')]]
   \<and> (\<exists>rows. show_crypto_list (\<lambda>v. ''?'')
          (JList
            [JDict [(''id'', JStr ''bitcoin''), (''symbol'', JStr ''btc''), (''name'', JStr ''Bitcoin'')],
             JDict [(''id'', JStr ''ethereum''), (''symbol'', JStr ''eth''), (''name'', JStr ''Ethereum'')],
             JDict [(''id'', JStr ''tether'')]])
          ''Top 100 Cryptocurrencies:''
        = Inr (Edit_message_text ''Top 100 Cryptocurrencies:'' (Some (rows @ [back_row])))
      \<and> length rows = 2)"
proof -
  have h: "list_all asset_record
     [JDict [(''id'', JStr ''bitcoin''), (''symbol'', JStr ''btc''), (''name'', JStr ''Bitcoin'')],
      JDict [(''id'', JStr ''ethereum''), (''symbol'', JStr ''eth''), (''name'', JStr ''Ethereum'')],
      JDict [(''id'', JStr ''tether'')]]"
    by (simp add: asset_record_def)
  from show_crypto_list_rows [OF h, of "\<lambda>v. ''?''" "''Top 100 Cryptocurrencies:''"]
  obtain rows where "show_crypto_list (\<lambda>v. ''?'')
          (JList
            [JDict [(''id'', JStr ''bitcoin''), (''symbol'', JStr ''btc''), (''name'', JStr ''Bitcoin'')],
             JDict [(''id'', JStr ''ethereum''), (''symbol'', JStr ''eth''), (''name'', JStr ''Ethereum'')],
             JDict [(''id'', JStr ''tether'')]])
          ''Top 100 Cryptocurrencies:''
        = Inr (Edit_message_text ''Top 100 Cryptocurrencies:'' (Some (rows @ [back_row])))"
      "length rows = 2"
    by auto
  with h show ?thesis by blast
qed

section \<open>Decoding the payloads\<close>

lemma split_nonempty: "split sep s \<noteq> []"
  by (induction s) (auto split: list.splits)

lemma hd_split: "hd (split sep s) = takeWhile (\<lambda>c. c \<noteq> sep) s"
  by (induction s) (auto simp: split_nonempty split: list.splits)

lemma split_prefix:
  "sep \<notin> set p \<Longrightarrow> split sep (p @ sep # rest) = p # split sep rest"
  by (induction p) (auto split: list.splits)

lemma index1_split:
  "sep \<notin> set p \<Longrightarrow>
   index1 (split sep (p @ sep # rest)) = Inr (takeWhile (\<lambda>c. c \<noteq> sep) rest)"
proof -
  assume "sep \<notin> set p"
  then have "split sep (p @ sep # rest) = p # split sep rest" by (rule split_prefix)
  moreover obtain w ws where "split sep rest = w # ws"
    using split_nonempty [of sep rest] by (cases "split sep rest") auto
  moreover from this have "w = takeWhile (\<lambda>c. c \<noteq> sep) rest"
    using hd_split [of sep rest] by simp
  ultimately show ?thesis by simp
qed

lemma decode_crypto:
  "index1 (split (CHR '':'') (''crypto:'' @ x)) = Inr (takeWhile (\<lambda>c. c \<noteq> CHR '':'') x)"
  using index1_split [of "CHR '':''" "''crypto''" x] by simp

lemma decode_currency:
  "index1 (split (CHR '':'') (''currency:'' @ x)) = Inr (takeWhile (\<lambda>c. c \<noteq> CHR '':'') x)"
  using index1_split [of "CHR '':''" "''currency''" x] by simp

lemma startswith_decode:
  "startswith d p \<Longrightarrow> \<exists>x. d = p @ x"
  by (metis append_take_drop_id startswith_def)

lemma click_crypto:
  "button_click net fmt (Callback_query (''crypto:'' @ x)) ud =
     \<lparr>returned = Inr (Some CHOOSING_CURRENCY),
      user_data = ud(''crypto'' \<mapsto> takeWhile (\<lambda>c. c \<noteq> CHR '':'') x),
      replies = [Answer, show_currency_options], fetches = []\<rparr>"
  using decode_crypto [of x] by (simp add: button_click_def startswith_def)

lemma click_currency:
  "button_click net fmt (Callback_query (''currency:'' @ x)) ud =
     (let crypto_id = (case ud ''crypto'' of None \<Rightarrow> ''bitcoin'' | Some c \<Rightarrow> c);
          (raised, shown, f) =
             show_crypto_details net fmt crypto_id (takeWhile (\<lambda>c. c \<noteq> CHR '':'') x)
      in \<lparr>returned = (case raised of Some e \<Rightarrow> Inl e | None \<Rightarrow> Inr (Some COMPARE_SELECTION)),
          user_data = ud, replies = Answer # shown, fetches = [f]\<rparr>)"
  using decode_currency [of x] by (simp add: button_click_def startswith_def)

lemma click_frame:
  "user_data (button_click net fmt update ud) = ud
   \<or> (\<exists>x. update = Callback_query (''crypto:'' @ x)
          \<and> user_data (button_click net fmt update ud)
              = ud(''crypto'' \<mapsto> takeWhile (\<lambda>c. c \<noteq> CHR '':'') x))"
proof (cases update)
  case (Message m)
  then show ?thesis by (simp add: button_click_def)
next
  case (Callback_query d)
  show ?thesis
  proof (cases "startswith d ''crypto:''")
    case True
    then obtain x where "d = ''crypto:'' @ x" using startswith_decode by blast
    with Callback_query show ?thesis by (simp only: click_crypto) simp
  next
    case False
    with Callback_query show ?thesis
      by (simp add: button_click_def Let_def split_beta split: sum.splits option.splits)
  qed
qed

section \<open>The selection context\<close>

text \<open>
  Claim C10. Whatever the update, \<^verbatim>\<open>button_click\<close> leaves every key of
  \<^verbatim>\<open>context.user_data\<close> other than \<^verbatim>\<open>'crypto'\<close> as it was, and changes
  \<^verbatim>\<open>user_data\<close> only on a payload \<^verbatim>\<open>crypto:...\<close>, where it overwrites
  \<^verbatim>\<open>'crypto'\<close> with the decoded asset id. On a payload \<^verbatim>\<open>currency:...\<close> it stores
  nothing: the currency is decoded and handed to \<^verbatim>\<open>show_crypto_details\<close>, whose
  replies follow the answer to the query. \<^verbatim>\<open>start\<close> stores nothing either.
\<close>

theorem button_click_writes_only_crypto:
  "(\<forall>k. k \<noteq> ''crypto'' \<longrightarrow> user_data (button_click net fmt update ud) k = ud k)
   \<and> (user_data (button_click net fmt update ud) \<noteq> ud
        \<longrightarrow> (\<exists>x. update = Callback_query (''crypto:'' @ x)))
   \<and> user_data (button_click net fmt (Callback_query (''crypto:'' @ x)) ud)
        = ud(''crypto'' \<mapsto> takeWhile (\<lambda>c. c \<noteq> CHR '':'') x)
   \<and> user_data (button_click net fmt (Callback_query (''currency:'' @ code)) ud) = ud
   \<and> replies (button_click net fmt (Callback_query (''currency:'' @ code)) ud)
        = Answer # fst (snd (show_crypto_details net fmt
                               (case ud ''crypto'' of None \<Rightarrow> ''bitcoin'' | Some c \<Rightarrow> c)
                               (takeWhile (\<lambda>c. c \<noteq> CHR '':'') code)))
   \<and> user_data (start update ud) = ud"
proof (intro conjI allI impI)
  fix k :: string
  assume "k \<noteq> ''crypto''"
  then show "user_data (button_click net fmt update ud) k = ud k"
    using click_frame [of net fmt update ud] by auto
next
  assume "user_data (button_click net fmt update ud) \<noteq> ud"
  then show "\<exists>x. update = Callback_query (''crypto:'' @ x)"
    using click_frame [of net fmt update ud] by auto
next
  show "user_data (button_click net fmt (Callback_query (''crypto:'' @ x)) ud)
        = ud(''crypto'' \<mapsto> takeWhile (\<lambda>c. c \<noteq> CHR '':'') x)"
    by (simp only: click_crypto) simp
next
  show "user_data (button_click net fmt (Callback_query (''currency:'' @ code)) ud) = ud"
    by (simp only: click_currency) (simp add: Let_def split_beta)
next
  show "replies (button_click net fmt (Callback_query (''currency:'' @ code)) ud)
        = Answer # fst (snd (show_crypto_details net fmt
                               (case ud ''crypto'' of None \<Rightarrow> ''bitcoin'' | Some c \<Rightarrow> c)
                               (takeWhile (\<lambda>c. c \<noteq> CHR '':'') code)))"
    by (simp only: click_currency) (simp add: Let_def split_beta)
next
  show "user_data (start update ud) = ud" by (simp add: start_def)
qed

theorem button_click_writes_only_crypto_witness:
  "user_data (button_click (\<lambda>r i. Other_error) (\<lambda>v. ''?'') (Callback_query ''crypto:ethereum'')
                [''lang'' \<mapsto> ''en'']) ''lang'' = Some ''en''
   \<and> user_data (button_click (\<lambda>r i. Other_error) (\<lambda>v. ''?'') (Callback_query ''crypto:ethereum'')
                [''lang'' \<mapsto> ''en'']) ''crypto'' = Some ''ethereum''
   \<and> user_data (button_click (\<lambda>r i. Other_error) (\<lambda>v. ''?'') (Callback_query ''crypto:ethereum'')
                [''lang'' \<mapsto> ''en'']) \<noteq> [''lang'' \<mapsto> ''en'']
   \<and> (\<exists>x. Callback_query ''crypto:ethereum'' = Callback_query (''crypto:'' @ x))"
proof -
  let ?r = "button_click (\<lambda>r i. Other_error) (\<lambda>v. ''?'') (Callback_query ''crypto:ethereum'')
              [''lang'' \<mapsto> ''en'']"
  note t = button_click_writes_only_crypto [of "\<lambda>r i. Other_error" "\<lambda>v. ''?''"
      "Callback_query ''crypto:ethereum''" "[''lang'' \<mapsto> ''en'']" "''ethereum''" "''usd''"]
  have k: "''lang'' \<noteq> ''crypto''" by simp
  from t k have a: "user_data ?r ''lang'' = Some ''en''" by simp
  from t have b: "user_data ?r = [''lang'' \<mapsto> ''en'', ''crypto'' \<mapsto> ''ethereum'']" by simp
  then have c: "user_data ?r ''crypto'' = Some ''ethereum''" by simp
  have "[''lang'' \<mapsto> ''en''] ''crypto'' = (None :: string option)" by simp
  with c have d: "user_data ?r \<noteq> [''lang'' \<mapsto> ''en'']" by (metis option.distinct(1))
  with t have e: "\<exists>x. Callback_query ''crypto:ethereum'' = Callback_query (''crypto:'' @ x)"
    by blast
  from a c d e show ?thesis by blast
qed

text \<open>
  Claim C3, as amended. With no asset in \<^verbatim>\<open>user_data\<close>, a payload
  \<^verbatim>\<open>currency:...\<close> is not rejected: \<^verbatim>\<open>user_data.get('crypto', 'bitcoin')\<close> falls
  back on the asset \<^verbatim>\<open>bitcoin\<close>. The handler makes one fetch, the simple-price request
  for \<^verbatim>\<open>bitcoin\<close> in the decoded currency, so that the request never carries an
  undefined asset; it sends the replies of the quote renderer, stores nothing, and
  returns \<^verbatim>\<open>COMPARE_SELECTION\<close> unless the renderer raised.
\<close>

theorem currency_without_asset_defaults:
  assumes "ud ''crypto'' = None"
  shows "fetches (button_click net fmt (Callback_query (''currency:'' @ code)) ud)
           = [snd (get_crypto_details net ''bitcoin'' (takeWhile (\<lambda>c. c \<noteq> CHR '':'') code))]
      \<and> sent (snd (get_crypto_details net ''bitcoin'' (takeWhile (\<lambda>c. c \<noteq> CHR '':'') code)))
           = \<lparr>url = COINGECKO_API_URL @ ''/simple/price'',
              params = Some [(''ids'', JStr ''bitcoin''),
                             (''vs_currencies'', JStr (takeWhile (\<lambda>c. c \<noteq> CHR '':'') code)),
                             (''include_24hr_change'', JStr ''true''),
                             (''include_market_cap'', JStr ''true'')]\<rparr>
      \<and> replies (button_click net fmt (Callback_query (''currency:'' @ code)) ud)
           = Answer # fst (snd (show_crypto_details net fmt ''bitcoin''
                                  (takeWhile (\<lambda>c. c \<noteq> CHR '':'') code)))
      \<and> returned (button_click net fmt (Callback_query (''currency:'' @ code)) ud)
           \<in> {Inr (Some COMPARE_SELECTION), Inl AttributeError}
      \<and> user_data (button_click net fmt (Callback_query (''currency:'' @ code)) ud) = ud"
proof -
  let ?c = "takeWhile (\<lambda>c. c \<noteq> CHR '':'') code"
  have f: "snd (snd (show_crypto_details net fmt ''bitcoin'' ?c))
             = snd (get_crypto_details net ''bitcoin'' ?c)"
    by (simp add: show_crypto_details_def Let_def split_beta split: json.splits)
  have r: "fst (show_crypto_details net fmt ''bitcoin'' ?c) \<in> {None, Some AttributeError}"
    by (simp add: show_crypto_details_def Let_def split_beta split: json.splits)
  have s: "sent (snd (get_crypto_details net ''bitcoin'' ?c))
           = \<lparr>url = COINGECKO_API_URL @ ''/simple/price'',
              params = Some [(''ids'', JStr ''bitcoin''),
                             (''vs_currencies'', JStr ?c),
                             (''include_24hr_change'', JStr ''true''),
                             (''include_market_cap'', JStr ''true'')]\<rparr>"
    by (simp add: get_crypto_details_def make_api_request_def Let_def split_beta)
  show ?thesis
    using assms f r s by (simp only: click_currency) (auto simp add: Let_def split_beta)
qed

theorem currency_without_asset_defaults_witness:
  "Map.empty ''crypto'' = (None :: string option)
   \<and> fetches (button_click (\<lambda>r i. Other_error) (\<lambda>v. ''?'') (Callback_query (''currency:'' @ ''usd''))
                Map.empty)
       = [snd (get_crypto_details (\<lambda>r i. Other_error) ''bitcoin'' ''usd'')]"
proof -
  have h: "Map.empty ''crypto'' = (None :: string option)" by simp
  from currency_without_asset_defaults [OF h, of "\<lambda>r i. Other_error" "\<lambda>v. ''?''" "''usd''"]
  show ?thesis by simp
qed

text \<open>
  The claim as first stated, that the event is rejected and no quote is fetched, fails
  on the empty \<^verbatim>\<open>user_data\<close>: the payload \<^verbatim>\<open>currency:usd\<close> fetches the quote of
  \<^verbatim>\<open>bitcoin\<close> and the handler returns \<^verbatim>\<open>COMPARE_SELECTION\<close>.
\<close>

theorem currency_without_asset_counterexample:
  "fetches (button_click (\<lambda>r i. Decoded (JDict [(''usd'', JInt 50000)])) (\<lambda>v. ''50000'')
              (Callback_query ''currency:usd'') Map.empty)
     = [\<lparr>sent = \<lparr>url = ''https://api.coingecko.com/api/v3/simple/price'',
                 params = Some [(''ids'', JStr ''bitcoin''), (''vs_currencies'', JStr ''usd''),
                                (''include_24hr_change'', JStr ''true''),
                                (''include_market_cap'', JStr ''true'')]\<rparr>,
         tries = 1\<rparr>]
   \<and> returned (button_click (\<lambda>r i. Decoded (JDict [(''usd'', JInt 50000)])) (\<lambda>v. ''50000'')
                 (Callback_query ''currency:usd'') Map.empty)
     = Inr (Some COMPARE_SELECTION)"
  by (simp add: button_click_def startswith_def show_crypto_details_def get_crypto_details_def
      make_api_request_first COINGECKO_API_URL_def Let_def)

text \<open>
  Claim C9, as amended. For every asset id that contains no colon,
  \<^verbatim>\<open>split(':')[1]\<close> of the payload \<^verbatim>\<open>crypto:<id>\<close> is the id, and the handler
  stores that id; for every supported currency code, \<^verbatim>\<open>split(':')[1]\<close> of
  \<^verbatim>\<open>currency:<code>\<close> is the code, and the handler fetches the quote in that
  currency. The payload of an asset button is \<^verbatim>\<open>crypto:\<close> followed by the id of the
  record as the f-string prints it.
\<close>

theorem payload_round_trip:
  "(CHR '':'' \<notin> set crypto_id \<longrightarrow>
      index1 (split (CHR '':'') (''crypto:'' @ crypto_id)) = Inr crypto_id
      \<and> user_data (button_click net fmt (Callback_query (''crypto:'' @ crypto_id)) ud) ''crypto''
          = Some crypto_id)
   \<and> (\<forall>currency \<in> set SUPPORTED_CURRENCIES.
        index1 (split (CHR '':'') (''currency:'' @ currency)) = Inr currency
        \<and> fetches (button_click net fmt (Callback_query (''currency:'' @ currency)) ud)
            = [snd (get_crypto_details net
                      (case ud ''crypto'' of None \<Rightarrow> ''bitcoin'' | Some c \<Rightarrow> c) currency)])
   \<and> (crypto_button fmt (JDict kvs) = Inr b \<longrightarrow>
        callback_data b = ''crypto:'' @ format fmt (dict_get kvs ''id'' (JStr ''unknown'')))"
proof (intro conjI impI ballI)
  assume a: "CHR '':'' \<notin> set crypto_id"
  then have t: "takeWhile (\<lambda>c. c \<noteq> CHR '':'') crypto_id = crypto_id"
    by (auto simp: takeWhile_eq_all_conv)
  show "index1 (split (CHR '':'') (''crypto:'' @ crypto_id)) = Inr crypto_id"
    using t by (simp only: decode_crypto)
  show "user_data (button_click net fmt (Callback_query (''crypto:'' @ crypto_id)) ud) ''crypto''
          = Some crypto_id"
    using t by (simp only: click_crypto) simp
next
  fix currency assume "currency \<in> set SUPPORTED_CURRENCIES"
  then have "CHR '':'' \<notin> set currency" by (auto simp: SUPPORTED_CURRENCIES_def)
  then have t: "takeWhile (\<lambda>c. c \<noteq> CHR '':'') currency = currency"
    by (auto simp: takeWhile_eq_all_conv)
  show "index1 (split (CHR '':'') (''currency:'' @ currency)) = Inr currency"
    using t by (simp only: decode_currency)
  have f: "\<And>i. snd (snd (show_crypto_details net fmt i currency))
             = snd (get_crypto_details net i currency)"
    by (simp add: show_crypto_details_def Let_def split_beta split: json.splits)
  show "fetches (button_click net fmt (Callback_query (''currency:'' @ currency)) ud)
            = [snd (get_crypto_details net
                      (case ud ''crypto'' of None \<Rightarrow> ''bitcoin'' | Some c \<Rightarrow> c) currency)]"
    using t f by (simp only: click_currency) (simp add: Let_def split_beta)
next
  assume "crypto_button fmt (JDict kvs) = Inr b"
  then show "callback_data b = ''crypto:'' @ format fmt (dict_get kvs ''id'' (JStr ''unknown''))"
    by (auto simp: Let_def split: json.splits)
qed

theorem payload_round_trip_witness:
  "CHR '':'' \<notin> set ''bitcoin''
   \<and> index1 (split (CHR '':'') (''crypto:'' @ ''bitcoin'')) = Inr ''bitcoin''
   \<and> ''usd'' \<in> set SUPPORTED_CURRENCIES
   \<and> index1 (split (CHR '':'') (''currency:'' @ ''usd'')) = Inr ''usd''
   \<and> callback_data (InlineKeyboardButton ''Unknown (BTC)'' ''crypto:bitcoin'') = ''crypto:bitcoin''"
proof -
  have h: "CHR '':'' \<notin> set ''bitcoin''" by simp
  have m: "''usd'' \<in> set SUPPORTED_CURRENCIES" by (simp add: SUPPORTED_CURRENCIES_def)
  note t = payload_round_trip [of "''bitcoin''" "\<lambda>r i. Other_error" "\<lambda>v. ''?''" Map.empty
      "[(''id'', JStr ''bitcoin''), (''symbol'', JStr ''btc'')]"
      "InlineKeyboardButton ''Unknown (BTC)'' ''crypto:bitcoin''"]
  from t h have a: "index1 (split (CHR '':'') (''crypto:'' @ ''bitcoin'')) = Inr ''bitcoin''"
    by blast
  from t m have b: "index1 (split (CHR '':'') (''currency:'' @ ''usd'')) = Inr ''usd''"
    by blast
  from h a m b show ?thesis by simp
qed

text \<open>
  The claim as first stated, for every asset id, fails on an id with a colon: the payload
  of the id \<^verbatim>\<open>a:b\<close> decodes to \<^verbatim>\<open>a\<close>.
\<close>

theorem payload_round_trip_counterexample:
  "index1 (split (CHR '':'') (''crypto:'' @ ''a:b'')) = Inr ''a''
   \<and> user_data (button_click (\<lambda>r i. Other_error) (\<lambda>v. ''?'') (Callback_query (''crypto:'' @ ''a:b''))
                  Map.empty) ''crypto'' \<noteq> Some ''a:b''"
  by (simp add: button_click_def startswith_def)

section \<open>The quote\<close>

lemma format_dict_get:
  "format fmt (dict_get kvs k (JStr ''N/A'')) = rendered_field fmt kvs k"
  by (simp add: dict_get_def rendered_field_def format_def split: option.splits)

text \<open>
  Claim C7, as amended. For every response record that is not empty,
  \<^verbatim>\<open>show_crypto_details\<close> raises nothing and renders the quote: each of price,
  24h change, market cap and 24h volume shows its value as the f-string prints it when
  the record has the field, and N/A when it has not; the options follow in a second
  message.
\<close>

theorem show_crypto_details_degrades:
  assumes "get_crypto_details net crypto_id currency = (JDict kvs, f)" and "kvs \<noteq> []"
  shows "show_crypto_details net fmt crypto_id currency =
           (None,
            [Edit_message_text
               (money_bag @ '' '' @ capitalize crypto_id @ '' ('' @ upper currency @ '')'' @ nl
                @ ''Price: '' @ rendered_field fmt kvs currency @ '' '' @ upper currency @ nl
                @ ''24h Change: '' @ rendered_field fmt kvs (currency @ ''_24h_change'')
                @ ''%'' @ nl
                @ ''Market Cap: '' @ rendered_field fmt kvs (currency @ ''_market_cap'')
                @ '' '' @ upper currency @ nl
                @ ''24h Trading Volume: '' @ rendered_field fmt kvs (currency @ ''_24h_vol'')
                @ '' '' @ upper currency @ nl @ nl)
               None,
             Reply_text ''Select an option:'' (Some details_keyboard)],
            f)"
  using assms
  by (simp add: show_crypto_details_def quote_message_def Let_def format_dict_get)

theorem show_crypto_details_degrades_witness:
  "get_crypto_details (\<lambda>r i. Decoded (JDict [(''usd'', JInt 50000), (''usd_24h_change'', JInt 2)]))
      ''bitcoin'' ''usd''
     = (JDict [(''usd'', JInt 50000), (''usd_24h_change'', JInt 2)],
        \<lparr>sent = \<lparr>url = COINGECKO_API_URL @ ''/simple/price'',
                  params = Some [(''ids'', JStr ''bitcoin''), (''vs_currencies'', JStr ''usd''),
                                 (''include_24hr_change'', JStr ''true''),
                                 (''include_market_cap'', JStr ''true'')]\<rparr>,
          tries = 1\<rparr>)
   \<and> [(''usd'', JInt 50000), (''usd_24h_change'', JInt 2)] \<noteq> []
   \<and> fst (show_crypto_details
            (\<lambda>r i. Decoded (JDict [(''usd'', JInt 50000), (''usd_24h_change'', JInt 2)]))
            (\<lambda>v. ''?'') ''bitcoin'' ''usd'') = None
   \<and> rendered_field (\<lambda>v. ''?'') [(''usd'', JInt 50000), (''usd_24h_change'', JInt 2)]
        (''usd'' @ ''_market_cap'') = ''N/A''"
proof -
  let ?kvs = "[(''usd'', JInt 50000), (''usd_24h_change'', JInt 2)]"
  let ?net = "\<lambda>(r::request) (i::nat). Decoded (JDict ?kvs)"
  let ?f = "\<lparr>sent = \<lparr>url = COINGECKO_API_URL @ ''/simple/price'',
                  params = Some [(''ids'', JStr ''bitcoin''), (''vs_currencies'', JStr ''usd''),
                                 (''include_24hr_change'', JStr ''true''),
                                 (''include_market_cap'', JStr ''true'')]\<rparr>,
          tries = 1\<rparr>"
  have h1: "get_crypto_details ?net ''bitcoin'' ''usd'' = (JDict ?kvs, ?f)"
    by (simp add: get_crypto_details_def make_api_request_first)
  have h2: "?kvs \<noteq> []" by simp
  from show_crypto_details_degrades [OF h1 h2, of "\<lambda>v. ''?''"]
  have "fst (show_crypto_details ?net (\<lambda>v. ''?'') ''bitcoin'' ''usd'') = None" by simp
  moreover have "rendered_field (\<lambda>v. ''?'') ?kvs (''usd'' @ ''_market_cap'') = ''N/A''"
    by (simp add: rendered_field_def)
  ultimately show ?thesis using h1 h2 by blast
qed

text \<open>
  The claim as first stated, for every response record without a market cap, fails on
  the empty record: \<^verbatim>\<open>if details:\<close> takes it for a failed fetch, and the only reply
  is the notice that the details are unavailable, in which N/A does not occur.
\<close>

theorem show_crypto_details_counterexample:
  "show_crypto_details (\<lambda>r i. Decoded (JDict [])) (\<lambda>v. ''?'') ''bitcoin'' ''usd''
     = (None, [Edit_message_text unavailable_notice None],
        \<lparr>sent = \<lparr>url = COINGECKO_API_URL @ ''/simple/price'',
                  params = Some [(''ids'', JStr ''bitcoin''), (''vs_currencies'', JStr ''usd''),
                                 (''include_24hr_change'', JStr ''true''),
                                 (''include_market_cap'', JStr ''true'')]\<rparr>,
          tries = 1\<rparr>)
   \<and> \<not> sublist ''N/A'' unavailable_notice"
proof -
  have "CHR ''/'' \<notin> set unavailable_notice"
    by (simp add: unavailable_notice_def no_entry_def)
  moreover have "CHR ''/'' \<in> set ''N/A''" by simp
  ultimately have "\<not> sublist ''N/A'' unavailable_notice"
    by (metis set_mono_sublist subsetD)
  then show ?thesis
    by (simp add: show_crypto_details_def get_crypto_details_def make_api_request_first)
qed

text \<open>
  Claim C4. The simple-price request of \<^verbatim>\<open>get_crypto_details\<close> carries four
  parameters: the asset id, the currency, the flag for the 24h change and the flag for
  the market cap. It carries no flag for the 24h volume (\<^verbatim>\<open>include_24hr_vol\<close>),
  although \<^verbatim>\<open>show_crypto_details\<close> reads the volume from the response.
\<close>

theorem get_crypto_details_params:
  "params (sent (snd (get_crypto_details net crypto_id currency)))
     = Some [(''ids'', JStr crypto_id), (''vs_currencies'', JStr currency),
             (''include_24hr_change'', JStr ''true''), (''include_market_cap'', JStr ''true'')]
   \<and> map_of [(''ids'', JStr crypto_id), (''vs_currencies'', JStr currency),
              (''include_24hr_change'', JStr ''true''), (''include_market_cap'', JStr ''true'')]
        ''include_24hr_vol'' = None"
  by (simp add: get_crypto_details_def make_api_request_def Let_def split_beta)

section \<open>The states the handler returns\<close>

lemma compare_selection_guard:
  "ud ''crypto'' = None \<or> ud ''crypto'' = Some [] \<Longrightarrow>
   button_click net fmt (Callback_query ''compare_selection'') ud =
     \<lparr>returned = Inr None, user_data = ud,
      replies = [Answer,
                 Edit_message_text ''Please select a cryptocurrency before comparing.'' None],
      fetches = []\<rparr>"
  by (auto simp: button_click_def startswith_def)

lemma compare_selection_fetches:
  "ud ''crypto'' = Some crypto_id \<Longrightarrow> crypto_id \<noteq> [] \<Longrightarrow>
   fetches (button_click net fmt (Callback_query ''compare_selection'') ud)
     = [snd (get_top_cryptos net 100)]
   \<and> returned (button_click net fmt (Callback_query ''compare_selection'') ud)
     \<noteq> Inr (Some CHOOSING_CRYPTO)"
  by (auto simp: button_click_def startswith_def Let_def split_beta split: sum.splits)

lemma trending_list_renders:
  assumes "fst (get_trending_cryptos net) = JList cryptos" and "list_all asset_record cryptos"
  shows "returned (button_click net fmt (Callback_query ''trending'') ud)
           = Inr (Some CHOOSING_CRYPTO)"
proof -
  from build_keyboard_records [OF assms(2), of fmt 0] obtain rows where
    "build_keyboard fmt cryptos 0 = Inr rows" by blast
  then have "show_crypto_list fmt (JList cryptos) ''Trending Cryptocurrencies:''
      = Inr (Edit_message_text ''Trending Cryptocurrencies:'' (Some (rows @ [back_row])))"
    by (simp only: show_crypto_list_def json.case sum.case)
  with assms(1) show ?thesis
    by (simp add: button_click_def startswith_def Let_def split_beta del: build_keyboard.simps)
qed

lemma button_click_raises_only:
  "returned (button_click net fmt update ud) = Inl e \<Longrightarrow>
   (\<exists>m. update = Message m)
   \<or> update = Callback_query ''top100'' \<or> update = Callback_query ''trending''
   \<or> update = Callback_query ''compare_selection''
   \<or> (\<exists>x. update = Callback_query (''currency:'' @ x))"
proof (cases update)
  case (Message m)
  then show ?thesis by simp
next
  case (Callback_query d)
  assume r: "returned (button_click net fmt update ud) = Inl e"
  show ?thesis
  proof (cases "startswith d ''crypto:''")
    case True
    then obtain x where "d = ''crypto:'' @ x" using startswith_decode by blast
    with r Callback_query show ?thesis by (simp only: click_crypto) simp
  next
    case False
    show ?thesis
    proof (cases "startswith d ''currency:''")
      case True
      then obtain x where "d = ''currency:'' @ x" using startswith_decode by blast
      with Callback_query show ?thesis by simp
    next
      case c: False
      with False r Callback_query show ?thesis
        by (simp add: button_click_def Let_def split_beta split: sum.splits option.splits if_splits)
    qed
  qed
qed

text \<open>
  Claim C2. With the asset \<^verbatim>\<open>bitcoin\<close> stored and a list of two assets fetched, the
  payload \<^verbatim>\<open>compare_selection\<close> renders the asset list and returns
  \<^verbatim>\<open>CHOOSING_CURRENCY\<close>, where the payload \<^verbatim>\<open>top100\<close>, which renders the same
  list, returns \<^verbatim>\<open>CHOOSING_CRYPTO\<close>.
\<close>

theorem compare_selection_returns_choosing_currency:
  "returned (button_click
      (\<lambda>r i. Decoded (JList
         [JDict [(''id'', JStr ''bitcoin''), (''symbol'', JStr ''btc''), (''name'', JStr ''Bitcoin'')],
          JDict [(''id'', JStr ''ethereum''), (''symbol'', JStr ''eth''), (''name'', JStr ''Ethereum'')]]))
      (\<lambda>v. ''?'') (Callback_query ''compare_selection'') [''crypto'' \<mapsto> ''bitcoin''])
     = Inr (Some CHOOSING_CURRENCY)
   \<and> returned (button_click
      (\<lambda>r i. Decoded (JList
         [JDict [(''id'', JStr ''bitcoin''), (''symbol'', JStr ''btc''), (''name'', JStr ''Bitcoin'')],
          JDict [(''id'', JStr ''ethereum''), (''symbol'', JStr ''eth''), (''name'', JStr ''Ethereum'')]]))
      (\<lambda>v. ''?'') (Callback_query ''top100'') [''crypto'' \<mapsto> ''bitcoin''])
     = Inr (Some CHOOSING_CRYPTO)"
  by (simp add: button_click_def startswith_def get_top_cryptos_def make_api_request_first
      show_crypto_list_def Let_def dict_get_def)

text \<open>
  Claim C6. The trending endpoint answers with a record whose field \<^verbatim>\<open>coins\<close> lists
  the assets, each under \<^verbatim>\<open>item\<close>. \<^verbatim>\<open>button_click\<close> hands the record itself to
  \<^verbatim>\<open>show_crypto_list\<close>, which cannot slice a dict: the exception leaves the handler
  after the message that the fetch is under way, no list is rendered and no state is
  returned.
\<close>

theorem trending_record_raises:
  "button_click
      (\<lambda>r i. Decoded (JDict [(''coins'', JList [JDict [(''item'',
          JDict [(''id'', JStr ''bitcoin''), (''name'', JStr ''Bitcoin''),
                 (''symbol'', JStr ''btc'')])]])]))
      (\<lambda>v. ''?'') (Callback_query ''trending'') Map.empty
     = \<lparr>returned = Inl TypeError, user_data = Map.empty,
        replies = [Answer,
                   Edit_message_text ''Fetching trending cryptocurrencies, please wait...'' None],
        fetches = [\<lparr>sent = \<lparr>url = COINGECKO_API_URL @ ''/search/trending'', params = None\<rparr>,
                    tries = 1\<rparr>]\<rparr>"
  by (simp add: button_click_def startswith_def get_trending_cryptos_def make_api_request_first
      show_crypto_list_def Let_def)

text \<open>
  Claim C8. When the fetch of the top assets fails, \<^verbatim>\<open>get_top_cryptos\<close> returns
  \<^verbatim>\<open>None\<close> and \<^verbatim>\<open>len(None)\<close> raises in \<^verbatim>\<open>show_crypto_list\<close>: the handler
  returns no state. On a text message, for which \<^verbatim>\<open>main\<close> registers the same
  handler, \<^verbatim>\<open>query\<close> is \<^verbatim>\<open>None\<close> and \<^verbatim>\<open>query.answer()\<close> raises.
\<close>

theorem top100_unavailable_raises:
  "returned (button_click (\<lambda>r i. Other_error) (\<lambda>v. ''?'') (Callback_query ''top100'') Map.empty)
     = Inl TypeError
   \<and> returned (button_click (\<lambda>r i. Other_error) (\<lambda>v. ''?'') (Message ''bitcoin'') Map.empty)
     = Inl AttributeError"
  by (simp add: button_click_def startswith_def get_top_cryptos_def make_api_request_other
      show_crypto_list_def Let_def)

end
